theory Spec2Isabelle
  imports Main
begin

section \<open>JavaScript values\<close>

text \<open>
  The values that request options, parameters and bodies are built from.  A string is a
  list of bytes (its UTF-8 encoding).

  \<^item> \<open>Num s\<close> is the number that JavaScript prints as \<open>s\<close> (\<open>1\<close>, \<open>-12\<close>, \<open>1.5\<close>,
    \<open>1e+21\<close>, \<open>NaN\<close>): the code does no arithmetic, it converts numbers to text and
    tests their truthiness, and both are functions of the printed text.
  \<^item> \<open>Arr xs\<close> is an array without holes.
  \<^item> \<open>Obj kvs\<close> is an object whose prototype is \<open>Object.prototype\<close> (an object
    literal, the result of \<open>JSON.parse\<close> or of a spread): its own enumerable data
    properties, in enumeration order.  An own property may shadow a member of the
    prototype; the three members that the code reads, \<open>constructor\<close>,
    \<open>hasOwnProperty\<close> and \<open>__proto__\<close>, are treated where the code reads them
    (\<open>isPlainObject\<close>, \<open>stringifyParams\<close>, \<open>mergeDeep\<close>).  Every other member
    of the prototype is a function, which the code cannot tell from \<open>undefined\<close>.
  \<^item> \<open>HeadersRef a\<close> is a reference to the \<open>Headers\<close> collection stored at address
    \<open>a\<close> of the heap (section Headers): the one kind of value inside an options
    record that the code mutates in place without having allocated it.
  \<^item> \<open>Opaque cls payload\<close> is any other object subtype that has no own enumerable
    property, is not iterable and has no \<open>toJSON\<close> method, such as a \<open>Blob\<close> or an
    \<open>ArrayBuffer\<close>; \<open>cls\<close> is its class name.
\<close>

type_synonym key = string

datatype jsval =
    Undefined
  | Null
  | Bool bool
  | Num string
  | Str string
  | Arr "jsval list"
  | Obj "(key \<times> jsval) list"
  | HeadersRef nat
  | Opaque string string

type_synonym props = "(key \<times> jsval) list"

text \<open>Truthiness (\<open>if (v)\<close>, \<open>!v\<close>, \<open>v ? a : b\<close>).\<close>

fun truthy :: "jsval \<Rightarrow> bool" where
  "truthy Undefined = False"
| "truthy Null = False"
| "truthy (Bool b) = b"
| "truthy (Num s) = (s \<noteq> ''0'' \<and> s \<noteq> ''NaN'')"
| "truthy (Str s) = (s \<noteq> [])"
| "truthy (Arr xs) = True"
| "truthy (Obj kvs) = True"
| "truthy (HeadersRef a) = True"
| "truthy (Opaque cls payload) = True"

text \<open>\<open>Array.isArray\<close>, and the elements of an array.\<close>

fun isArray :: "jsval \<Rightarrow> bool" where
  "isArray (Arr xs) = True"
| "isArray _ = False"

fun elems :: "jsval \<Rightarrow> jsval list" where
  "elems (Arr xs) = xs"
| "elems _ = []"

subsection \<open>Strings\<close>

text \<open>\<open>digits n\<close> is the decimal numeral of \<open>n\<close>: the property key of an array index.\<close>

function digits :: "nat \<Rightarrow> string" where
  "digits n = (if n < 10 then [''0123456789'' ! n]
               else digits (n div 10) @ [''0123456789'' ! (n mod 10)])"
  by pat_completeness auto
termination
  by (relation "measure id") auto

declare digits.simps [simp del]

fun join :: "string \<Rightarrow> string list \<Rightarrow> string" where
  "join sep [] = []"
| "join sep [x] = x"
| "join sep (x # y # ys) = x @ sep @ join sep (y # ys)"

definition is_digit :: "char \<Rightarrow> bool" where
  "is_digit c = (48 \<le> (of_char c :: nat) \<and> (of_char c :: nat) \<le> 57)"

definition is_alpha :: "char \<Rightarrow> bool" where
  "is_alpha c = ((65 \<le> (of_char c :: nat) \<and> (of_char c :: nat) \<le> 90)
               \<or> (97 \<le> (of_char c :: nat) \<and> (of_char c :: nat) \<le> 122))"

definition lower :: "string \<Rightarrow> string" where
  "lower s = map (\<lambda>c. if 65 \<le> (of_char c :: nat) \<and> (of_char c :: nat) \<le> 90
                       then char_of ((of_char c :: nat) + 32) else c) s"

text \<open>
  \<open>ToString\<close>, the conversion that \<open>encodeURIComponent\<close>, \<open>RegExp.test\<close>, template
  literals and the \<open>URL\<close> and \<open>Headers\<close> constructors apply to an argument.
\<close>

fun to_string :: "jsval \<Rightarrow> string" where
  "to_string Undefined = ''undefined''"
| "to_string Null = ''null''"
| "to_string (Bool b) = (if b then ''true'' else ''false'')"
| "to_string (Num s) = s"
| "to_string (Str s) = s"
| "to_string (Arr xs) =
     join '','' (map (\<lambda>x. if x = Undefined \<or> x = Null then [] else to_string x) xs)"
| "to_string (Obj kvs) = ''[object Object]''"
| "to_string (HeadersRef a) = ''[object Headers]''"
| "to_string (Opaque cls payload) = ''[object '' @ cls @ '']''"

subsection \<open>Properties\<close>

text \<open>
  The own enumerable string-keyed properties of a value, in enumeration order: what
  \<open>Object.keys\<close>, \<open>for ... in\<close> filtered by \<open>hasOwnProperty\<close>, and object spread
  \<open>{...v}\<close> visit.  \<open>null\<close>, \<open>undefined\<close>, a boolean, a number, a \<open>Headers\<close>
  collection and an opaque object have none.  (A string has its characters as indexed
  properties.  The source types every value that it enumerates, \<open>source\<close>,
  \<open>params\<close>, \<open>defaultInit\<close> and \<open>init\<close>, as a record; a string in the place of
  such a record is outside the model.)
\<close>

fun own_props :: "jsval \<Rightarrow> props" where
  "own_props (Obj kvs) = kvs"
| "own_props (Arr xs) = zip (map digits [0..<length xs]) xs"
| "own_props _ = []"

text \<open>Object spread \<open>{...v}\<close>: the properties of the fresh plain object.\<close>

definition spread :: "jsval \<Rightarrow> props" where
  "spread v = own_props v"

text \<open>The property read \<open>o[k]\<close> on a plain object.\<close>

definition get_prop :: "props \<Rightarrow> key \<Rightarrow> jsval" where
  "get_prop ps k = (case map_of ps k of None \<Rightarrow> Undefined | Some v \<Rightarrow> v)"

text \<open>
  The assignment \<open>o[k] = v\<close> on a plain object.  An existing property keeps its place.
  A new property whose key is an array index (a canonical numeral below \<open>2^32 - 1\<close>) is
  enumerated among the index keys, in ascending numeric order, before all other keys;
  any other new property is enumerated last.
\<close>

definition dec_val :: "string \<Rightarrow> int" where
  "dec_val s = foldl (\<lambda>n c. 10 * n + ((of_char c :: int) - 48)) 0 s"

definition is_array_index :: "key \<Rightarrow> bool" where
  "is_array_index k = (k \<noteq> [] \<and> list_all is_digit k \<and> (k = ''0'' \<or> hd k \<noteq> CHR ''0'')
                       \<and> dec_val k < 4294967295)"

fun ins_index :: "key \<Rightarrow> jsval \<Rightarrow> props \<Rightarrow> props" where
  "ins_index k v [] = [(k, v)]"
| "ins_index k v ((k', v') # ps) =
     (if is_array_index k' \<and> dec_val k' < dec_val k then (k', v') # ins_index k v ps
      else (k, v) # (k', v') # ps)"

definition obj_set :: "props \<Rightarrow> key \<Rightarrow> jsval \<Rightarrow> props" where
  "obj_set ps k v =
     (if k \<in> fst ` set ps then map (\<lambda>e. if fst e = k then (k, v) else e) ps
      else if is_array_index k then ins_index k v ps
      else ps @ [(k, v)])"

section \<open>Type tests\<close>

text \<open>
  \<^verbatim>\<open>function isAnyObject(a) { return typeof a === 'object' }\<close>
  \<^verbatim>\<open>function isPlainObject(a) { return typeof a === 'object' && a !== null && a.constructor === Object }\<close>
  \<open>typeof null\<close> is \<open>'object'\<close>.  The \<open>constructor\<close> of an array is \<open>Array\<close>, that of a
  \<open>Headers\<close> collection is \<open>Headers\<close>.  An \<open>Obj\<close> inherits \<open>Object\<close> as its
  \<open>constructor\<close> unless it has an own property of that name, whose value is then one
  of the values above and never the function \<open>Object\<close>.
\<close>

fun isAnyObject :: "jsval \<Rightarrow> bool" where
  "isAnyObject Undefined = False"
| "isAnyObject Null = True"
| "isAnyObject (Bool b) = False"
| "isAnyObject (Num s) = False"
| "isAnyObject (Str s) = False"
| "isAnyObject (Arr xs) = True"
| "isAnyObject (Obj kvs) = True"
| "isAnyObject (HeadersRef a) = True"
| "isAnyObject (Opaque cls payload) = True"

fun isPlainObject :: "jsval \<Rightarrow> bool" where
  "isPlainObject (Obj kvs) = (''constructor'' \<notin> fst ` set kvs)"
| "isPlainObject _ = False"

section \<open>mergeDeep\<close>

text \<open>
  \<^verbatim>\<open>
  function mergeDeep(target, source) {
    if (!source) { return target }
    Object.keys(source).forEach((key) => {
      const targetValue = target[key]
      const sourceValue = source[key]
      if (Array.isArray(targetValue) && Array.isArray(sourceValue)) {
        target[key] = targetValue.concat(sourceValue)
      } else if (isAnyObject(targetValue) && isAnyObject(sourceValue)) {
        target[key] = mergeDeep({ ...targetValue }, sourceValue)
      } else {
        target[key] = sourceValue
      }
    })
    return target
  }
  \<close>
  The target is a plain object that the caller has just allocated (every call site passes
  a spread), so the function is modelled on the target's properties and returns the
  properties the target has on return.  \<open>mergeDeep_forEach\<close> is the \<open>forEach\<close> loop
  over the entries of the source that are still to be visited.

  The key \<open>__proto__\<close> is an accessor of \<open>Object.prototype\<close>.  When the target has no
  own property of that name, \<open>target[key]\<close> reads the target's prototype and the
  assignment goes to the setter, which ignores a primitive and takes an object as the new
  prototype of the target: the own properties of the target stay as they are.  (What the
  target then inherits from a replaced prototype is outside this model of own properties.)
  When the target has an own property \<open>__proto__\<close>, the key is read and written like any
  other.
\<close>

function mergeDeep :: "props \<Rightarrow> jsval \<Rightarrow> props"
  and mergeDeep_forEach :: "props \<Rightarrow> props \<Rightarrow> props" where
  "mergeDeep target source =
     (if \<not> truthy source then target
      else mergeDeep_forEach target (own_props source))"
| "mergeDeep_forEach target [] = target"
| "mergeDeep_forEach target ((key, sourceValue) # rest) =
     (if key = ''__proto__'' \<and> ''__proto__'' \<notin> fst ` set target
      then mergeDeep_forEach target rest
      else (let targetValue = get_prop target key in
            mergeDeep_forEach
              (if isArray targetValue \<and> isArray sourceValue
               then obj_set target key (Arr (elems targetValue @ elems sourceValue))
               else if isAnyObject targetValue \<and> isAnyObject sourceValue
               then obj_set target key (Obj (mergeDeep (spread targetValue) sourceValue))
               else obj_set target key sourceValue)
              rest))"
  by pat_completeness auto

section \<open>Errors\<close>

text \<open>
  \<open>Error\<close> is the error the code itself throws, \<open>TypeError\<close> the one the platform
  throws (from a constructor or a method, or at the call of a value that is not a
  function).  A function that may throw returns \<open>Inl\<close> of the error.
\<close>

datatype error = Error string | TypeError

section \<open>stringifyParams\<close>

text \<open>
  \<open>encodeURIComponent\<close>: every byte other than an ASCII letter, a digit or one of
  \<^verbatim>\<open>- _ . ! ~ * ' ( )\<close> becomes \<open>%XX\<close> with upper-case hexadecimal digits.
\<close>

definition hex_digit :: "nat \<Rightarrow> char" where
  "hex_digit n = ''0123456789ABCDEF'' ! n"

definition pct :: "char \<Rightarrow> string" where
  "pct c = [CHR ''%'', hex_digit ((of_char c :: nat) div 16), hex_digit ((of_char c :: nat) mod 16)]"

definition uri_unreserved :: "char \<Rightarrow> bool" where
  "uri_unreserved c = (is_alpha c \<or> is_digit c \<or> c \<in> set ''-_.!~*()'' \<or> c = CHR 0x27)"

definition encodeURIComponent :: "string \<Rightarrow> string" where
  "encodeURIComponent s = concat (map (\<lambda>c. if uri_unreserved c then [c] else pct c) s)"

text \<open>
  \<^verbatim>\<open>
  export function stringifyParams(params, prefix = '') {
    const str = []
    for (const p in params) {
      if (params.hasOwnProperty(p)) {
        const key = prefix ? prefix + '[' + p + ']' : p
        const value = params[p]
        if (value === undefined) { continue }
        str.push((value !== null && isAnyObject(value))
          ? stringifyParams(value, key)
          : encodeURIComponent(key) + '=' + encodeURIComponent(value))
      }
    }
    return str.filter((p) => !!p).join('&')
  }
  \<close>
  \<open>stringifyParams_loop\<close> is the \<open>for ... in\<close> loop over the entries still to be
  visited; it returns what the loop pushes onto \<open>str\<close>.  Its first argument tells
  whether \<open>params\<close> has an own property \<open>hasOwnProperty\<close>: the value of such a
  property is not a function, and the call \<open>params.hasOwnProperty(p)\<close> throws a
  \<open>TypeError\<close>.
\<close>

function stringifyParams :: "jsval \<Rightarrow> string \<Rightarrow> error + string"
  and stringifyParams_loop :: "bool \<Rightarrow> props \<Rightarrow> string \<Rightarrow> error + string list" where
  "stringifyParams params prefix =
     (case stringifyParams_loop (''hasOwnProperty'' \<in> fst ` set (own_props params))
             (own_props params) prefix of
        Inl e \<Rightarrow> Inl e
      | Inr str \<Rightarrow> Inr (join ''&'' (filter (\<lambda>p. p \<noteq> []) str)))"
| "stringifyParams_loop shadowed [] prefix = Inr []"
| "stringifyParams_loop shadowed ((p, value) # rest) prefix =
     (if shadowed then Inl TypeError
      else (let key = (if prefix \<noteq> [] then prefix @ ''['' @ p @ '']'' else p) in
            if value = Undefined then stringifyParams_loop shadowed rest prefix
            else (case (if value \<noteq> Null \<and> isAnyObject value
                        then stringifyParams value key
                        else Inr (encodeURIComponent key @ ''=''
                                  @ encodeURIComponent (to_string value))) of
                    Inl e \<Rightarrow> Inl e
                  | Inr s \<Rightarrow>
                      (case stringifyParams_loop shadowed rest prefix of
                         Inl e \<Rightarrow> Inl e
                       | Inr ss \<Rightarrow> Inr (s # ss)))))"
  by pat_completeness auto

section \<open>Platform objects\<close>

subsection \<open>URL\<close>

text \<open>
  A \<open>URL\<close> object, in the components the code reads and writes: the scheme, the
  authority and path as serialised (\<open>//host/path\<close>), the query and the fragment (each
  absent or a string, as in the URL standard).  The authority and the path are kept as
  written: the platform's normalisation of host case, default ports, dot segments and
  path characters, and its rejection of malformed hosts, are not modelled.
\<close>

record URL =
  url_scheme :: string
  url_hier :: string
  url_query :: "string option"
  url_fragment :: "string option"

definition scheme_char :: "char \<Rightarrow> bool" where
  "scheme_char c = (is_alpha c \<or> is_digit c \<or> c \<in> set ''+-.'')"

definition has_scheme :: "string \<Rightarrow> bool" where
  "has_scheme s = (case s of [] \<Rightarrow> False
                   | c # cs \<Rightarrow> is_alpha c \<and> take 1 (dropWhile scheme_char cs) = '':'')"

definition is_special :: "string \<Rightarrow> bool" where
  "is_special sch = (sch \<in> set [''http'', ''https'', ''ftp'', ''ws'', ''wss'', ''file''])"

text \<open>
  The encoding the URL parser applies to a query: tabs and newlines are dropped; controls,
  bytes above \<open>0x7E\<close>, space, \<open>"\<close>, \<open>#\<close>, \<open><\<close>, \<open>>\<close> and, for a special scheme, \<open>'\<close>
  are percent-encoded.
\<close>

definition query_encode :: "bool \<Rightarrow> string \<Rightarrow> string" where
  "query_encode special s =
     concat (map (\<lambda>c. if (of_char c :: nat) < 32 \<or> 126 < (of_char c :: nat)
                          \<or> c \<in> set [CHR 0x20, CHR 0x22, CHR 0x23, CHR 0x3C, CHR 0x3E]
                          \<or> (special \<and> c = CHR 0x27)
                       then pct c else [c])
                 (filter (\<lambda>c. c \<notin> set [CHR 0x09, CHR 0x0A, CHR 0x0D]) s))"

definition split_at :: "char \<Rightarrow> string \<Rightarrow> string \<times> string option" where
  "split_at c s = (takeWhile (\<lambda>x. x \<noteq> c) s,
                   if c \<in> set s then Some (tl (dropWhile (\<lambda>x. x \<noteq> c) s)) else None)"

definition parse_absolute :: "string \<Rightarrow> URL" where
  "parse_absolute s =
     (let sch = lower (takeWhile (\<lambda>x. x \<noteq> CHR '':'') s);
          (r, frag) = split_at CHR ''#'' (tl (dropWhile (\<lambda>x. x \<noteq> CHR '':'') s));
          (h, q) = split_at CHR ''?'' r
      in \<lparr>url_scheme = sch, url_hier = h,
          url_query = map_option (query_encode (is_special sch)) q, url_fragment = frag\<rparr>)"

text \<open>
  \<open>new URL(s)\<close> and \<open>new URL(s, base)\<close>.  An input with a scheme is parsed on its own;
  one without needs a base, here always an origin (\<open>scheme://host\<close>, path \<open>/\<close>), and
  fails with a \<open>TypeError\<close> when there is none.
\<close>

definition new_URL :: "string \<Rightarrow> string option \<Rightarrow> error + URL" where
  "new_URL s base =
     (if has_scheme s then Inr (parse_absolute s)
      else (case base of
              None \<Rightarrow> Inl TypeError
            | Some b \<Rightarrow> if has_scheme b
                        then Inr (parse_absolute (b @ (if take 1 s = ''/'' then s else CHR ''/'' # s)))
                        else Inl TypeError))"

text \<open>
  The \<open>search\<close> accessor.  The getter is empty for an absent or empty query.  The setter
  removes the query for the empty string; otherwise it drops one leading \<open>?\<close> and takes
  the rest, encoded, as the query.  \<open>href\<close> is the serialisation of the URL.
\<close>

definition search :: "URL \<Rightarrow> string" where
  "search u = (case url_query u of None \<Rightarrow> [] | Some q \<Rightarrow> if q = [] then [] else CHR ''?'' # q)"

definition set_search :: "URL \<Rightarrow> string \<Rightarrow> URL" where
  "set_search u v =
     (if v = [] then u\<lparr>url_query := None\<rparr>
      else u\<lparr>url_query := Some (query_encode (is_special (url_scheme u))
                                 (if take 1 v = ''?'' then tl v else v))\<rparr>)"

definition href :: "URL \<Rightarrow> string" where
  "href u = url_scheme u @ '':'' @ url_hier u
            @ (case url_query u of None \<Rightarrow> [] | Some q \<Rightarrow> CHR ''?'' # q)
            @ (case url_fragment u of None \<Rightarrow> [] | Some f \<Rightarrow> CHR ''#'' # f)"

subsection \<open>Headers\<close>

text \<open>
  A \<open>Headers\<close> collection is a header list with lower-case names.  Collections live in
  a heap, addressed by position, because the code may call \<open>set\<close> on a collection that
  its caller still holds.  \<open>headers_append\<close> validates as the platform does (the name a
  non-empty token, the value trimmed and free of NUL, CR and LF); \<open>headers_set\<close> is
  called by the code on a constant name and value only, which pass validation.  (The
  platform also refuses a name or value with a character above \<open>U+00FF\<close>; strings
  being bytes here, header values are taken to be ASCII.)
\<close>

type_synonym headers = "(string \<times> string) list"

type_synonym heap = "headers list"

definition is_token_char :: "char \<Rightarrow> bool" where
  "is_token_char c = (is_alpha c \<or> is_digit c \<or> c \<in> set ''!#$%&*+-.^_|~''
                      \<or> c = CHR 0x27 \<or> c = CHR 0x60)"

definition is_http_ws :: "char \<Rightarrow> bool" where
  "is_http_ws c = (c \<in> set [CHR 0x09, CHR 0x0A, CHR 0x0D, CHR 0x20])"

definition strip_ws :: "string \<Rightarrow> string" where
  "strip_ws s = rev (dropWhile is_http_ws (rev (dropWhile is_http_ws s)))"

definition headers_append :: "headers \<Rightarrow> string \<Rightarrow> string \<Rightarrow> error + headers" where
  "headers_append h name v =
     (if name = [] \<or> \<not> list_all is_token_char name
         \<or> list_ex (\<lambda>c. c \<in> set [CHR 0x00, CHR 0x0A, CHR 0x0D]) (strip_ws v)
      then Inl TypeError
      else Inr (h @ [(lower name, strip_ws v)]))"

fun set_first :: "string \<Rightarrow> string \<Rightarrow> headers \<Rightarrow> headers" where
  "set_first n v [] = []"
| "set_first n v ((n', v') # h) =
     (if n' = n then (n, v) # filter (\<lambda>e. fst e \<noteq> n) h else (n', v') # set_first n v h)"

definition headers_set :: "headers \<Rightarrow> string \<Rightarrow> string \<Rightarrow> headers" where
  "headers_set h name v =
     (if lower name \<in> fst ` set h then set_first (lower name) v h else h @ [(lower name, v)])"

fun headers_fill :: "headers \<Rightarrow> (string \<times> string) list \<Rightarrow> error + headers" where
  "headers_fill h [] = Inr h"
| "headers_fill h ((n, v) # es) =
     (case headers_append h n v of Inl e \<Rightarrow> Inl e | Inr h' \<Rightarrow> headers_fill h' es)"

fun pair_of :: "jsval \<Rightarrow> (string \<times> string) option" where
  "pair_of (Arr [n, v]) = Some (to_string n, to_string v)"
| "pair_of _ = None"

text \<open>
  \<open>new Headers(init)\<close>: nothing, a record of names and values, or a sequence of pairs;
  anything that is not an object is refused.
\<close>

definition new_Headers :: "jsval \<Rightarrow> error + headers" where
  "new_Headers init =
     (case init of
        Undefined \<Rightarrow> Inr []
      | Obj kvs \<Rightarrow> headers_fill [] (map (\<lambda>e. (fst e, to_string (snd e))) kvs)
      | Arr xs \<Rightarrow> (case those (map pair_of xs) of
                    None \<Rightarrow> Inl TypeError
                  | Some ps \<Rightarrow> headers_fill [] ps)
      | Opaque cls payload \<Rightarrow> Inr []
      | _ \<Rightarrow> Inl TypeError)"

definition headers_at :: "heap \<Rightarrow> nat \<Rightarrow> headers" where
  "headers_at st a = (if a < length st then st ! a else [])"

definition heap_set :: "heap \<Rightarrow> nat \<Rightarrow> string \<Rightarrow> string \<Rightarrow> heap" where
  "heap_set st a name v = (if a < length st then st[a := headers_set (st ! a) name v] else st)"

subsection \<open>JSON.stringify\<close>

definition json_char :: "char \<Rightarrow> string" where
  "json_char c =
     (if c = CHR 0x22 then [CHR 0x5C, CHR 0x22]
      else if c = CHR 0x5C then [CHR 0x5C, CHR 0x5C]
      else if c = CHR 0x08 then [CHR 0x5C, CHR ''b'']
      else if c = CHR 0x0C then [CHR 0x5C, CHR ''f'']
      else if c = CHR 0x0A then [CHR 0x5C, CHR ''n'']
      else if c = CHR 0x0D then [CHR 0x5C, CHR ''r'']
      else if c = CHR 0x09 then [CHR 0x5C, CHR ''t'']
      else if (of_char c :: nat) < 32
      then [CHR 0x5C, CHR ''u'', CHR ''0'', CHR ''0''] @ lower (tl (pct c))
      else [c])"

definition json_quote :: "string \<Rightarrow> string" where
  "json_quote s = CHR 0x22 # concat (map json_char s) @ [CHR 0x22]"

text \<open>
  The text \<open>JSON.stringify\<close> yields for a value.  Inside an array \<open>undefined\<close> is
  written \<open>null\<close>; inside an object a property whose value is \<open>undefined\<close> is left
  out; a number that is not finite is written \<open>null\<close>.  (At top level \<open>undefined\<close>
  has no text; the code passes a plain object.)
\<close>

fun JSON_stringify :: "jsval \<Rightarrow> string" where
  "JSON_stringify Undefined = ''null''"
| "JSON_stringify Null = ''null''"
| "JSON_stringify (Bool b) = (if b then ''true'' else ''false'')"
| "JSON_stringify (Num s) =
     (if s \<in> set [''NaN'', ''Infinity'', ''-Infinity''] then ''null'' else s)"
| "JSON_stringify (Str s) = json_quote s"
| "JSON_stringify (Arr xs) = ''['' @ join '','' (map JSON_stringify xs) @ '']''"
| "JSON_stringify (Obj kvs) =
     ''{'' @ join '','' (map (\<lambda>e. json_quote (fst e) @ '':'' @ JSON_stringify (snd e))
                             (filter (\<lambda>e. snd e \<noteq> Undefined) kvs)) @ ''}''"
| "JSON_stringify (HeadersRef a) = ''{}''"
| "JSON_stringify (Opaque cls payload) = ''{}''"

section \<open>URL resolution\<close>

text \<open>
  \<^verbatim>\<open>const absoluteURLRegex = /^([a-z][a-z\d+\-.]*:)?\/\//i\<close>
  \<^verbatim>\<open>function isAbsoluteURL(url) { return absoluteURLRegex.test(url) }\<close>
  The colon is outside the character class, so the optional group matches exactly when
  the longest run of class characters after the first letter is followed by a colon.
\<close>

definition isAbsoluteURL :: "string \<Rightarrow> bool" where
  "isAbsoluteURL url =
     (take 2 url = ''//''
      \<or> (case url of [] \<Rightarrow> False
          | c # cs \<Rightarrow> is_alpha c \<and> take 3 (dropWhile scheme_char cs) = ''://''))"

text \<open>
  \<^verbatim>\<open>
  function combineURLs(baseURL, relativeURL) {
    return relativeURL
      ? baseURL.replace(/\/+$/, '') + '/' + relativeURL.replace(/^\/+/, '')
      : baseURL
  }
  \<close>
  The base is the value of the \<open>baseURL\<close> option as found at run time: \<open>replace\<close>
  exists on strings only, and the result is handed to \<open>new URL\<close>, which converts it to
  a string.
\<close>

definition combineURLs :: "jsval \<Rightarrow> string \<Rightarrow> error + string" where
  "combineURLs baseURL relativeURL =
     (if relativeURL \<noteq> []
      then (case baseURL of
              Str b \<Rightarrow> Inr (rev (dropWhile (\<lambda>c. c = CHR ''/'') (rev b)) @ ''/''
                            @ dropWhile (\<lambda>c. c = CHR ''/'') relativeURL)
            | _ \<Rightarrow> Inl TypeError)
      else Inr (to_string baseURL))"

text \<open>
  The request target: a string, a \<open>URL\<close> object or a \<open>Request\<close> object (of which the
  code reads the \<open>url\<close> string only).
\<close>

datatype input = InString string | InURL URL | InRequest string

text \<open>
  \<^verbatim>\<open>
  function convertInputToURL(input, init = {}) {
    if (typeof input === 'string') {
      if (isAbsoluteURL(input)) {
        return new URL(input)
      } else {
        if (init.baseURL) {
          if (isAbsoluteURL(init.baseURL)) {
            return new URL(combineURLs(init.baseURL, input))
          } else if (typeof location !== 'undefined') {
            return new URL(combineURLs(init.baseURL, input), location.origin)
          } else {
            throw new Error(`Failed to build URL: base url is relative (${init.baseURL}) and browser location is unavailable`)
          }
        } else {
          if (typeof location !== 'undefined') {
            return new URL(input, location.origin)
          } else {
            throw new Error('Failed to build URL: base url is not set and browser location is unavailable')
          }
        }
      }
    }
    if (input instanceof Request) { return new URL(input.url) }
    return input
  }
  \<close>
  The global \<open>location\<close> is the parameter \<open>location\<close>: \<open>None\<close> where the global is
  undefined, otherwise its \<open>origin\<close>.  A \<open>URL\<close> input is returned as it is (the same
  object, which the caller of \<open>transformOptions\<close> then sees updated).
\<close>

definition convertInputToURL :: "string option \<Rightarrow> input \<Rightarrow> props \<Rightarrow> error + URL" where
  "convertInputToURL location input init =
     (case input of
        InString s \<Rightarrow>
          if isAbsoluteURL s then new_URL s None
          else if truthy (get_prop init ''baseURL'') then
            (if isAbsoluteURL (to_string (get_prop init ''baseURL'')) then
               (case combineURLs (get_prop init ''baseURL'') s of
                  Inl e \<Rightarrow> Inl e
                | Inr c \<Rightarrow> new_URL c None)
             else (case location of
                     Some origin \<Rightarrow>
                       (case combineURLs (get_prop init ''baseURL'') s of
                          Inl e \<Rightarrow> Inl e
                        | Inr c \<Rightarrow> new_URL c (Some origin))
                   | None \<Rightarrow>
                       Inl (Error (''Failed to build URL: base url is relative (''
                                   @ to_string (get_prop init ''baseURL'')
                                   @ '') and browser location is unavailable''))))
          else (case location of
                  Some origin \<Rightarrow> new_URL s (Some origin)
                | None \<Rightarrow>
                    Inl (Error ''Failed to build URL: base url is not set and browser location is unavailable''))
      | InRequest u \<Rightarrow> new_URL u None
      | InURL u \<Rightarrow> Inr u)"

section \<open>transformOptions and request\<close>

text \<open>
  \<^verbatim>\<open>const normilizedHeaders = headers instanceof Headers ? headers : new Headers(headers)\<close>
  yields the address of the collection: the given one, or a new one at the end of the
  heap.
\<close>

definition normilizedHeaders :: "jsval \<Rightarrow> heap \<Rightarrow> error + (nat \<times> heap)" where
  "normilizedHeaders headers st =
     (case headers of
        HeadersRef a \<Rightarrow> Inr (a, st)
      | _ \<Rightarrow> (case new_Headers headers of
                Inl e \<Rightarrow> Inl e
              | Inr h \<Rightarrow> Inr (length st, st @ [h])))"

text \<open>
  \<^verbatim>\<open>
  function transformOptions(input, init = {}) {
    const { body, headers, params, baseURL, ...rest } = init
    const url = convertInputToURL(input, init)
    const normilizedHeaders = headers instanceof Headers ? headers : new Headers(headers)
    const options = rest
    if (body) {
      if (isPlainObject(body)) {
        options.body = JSON.stringify(body)
        normilizedHeaders.set('content-type', 'application/json')
      } else {
        options.body = body
      }
    }
    if (params) {
      const paramsString = stringifyParams(params)
      if (paramsString) {
        url.search += '&' + paramsString
      }
    }
    options.headers = normilizedHeaders
    return [url, options]
  }
  \<close>
  The result is the pair of the URL and the transport options, with the heap of
  \<open>Headers\<close> collections as the call leaves it; a thrown error is \<open>Inl\<close> (the heap
  a throw leaves behind is not part of the result).
\<close>

definition transformOptions ::
  "string option \<Rightarrow> input \<Rightarrow> props \<Rightarrow> heap \<Rightarrow> error + ((URL \<times> props) \<times> heap)" where
  "transformOptions location input init st =
     (let body = get_prop init ''body'';
          headers = get_prop init ''headers'';
          params = get_prop init ''params'';
          rest = filter (\<lambda>e. fst e \<notin> set [''body'', ''headers'', ''params'', ''baseURL'']) init
      in case convertInputToURL location input init of
           Inl e \<Rightarrow> Inl e
         | Inr url \<Rightarrow>
             (case normilizedHeaders headers st of
                Inl e \<Rightarrow> Inl e
              | Inr (a, st1) \<Rightarrow>
                  (let (options, st2) =
                         (if truthy body then
                            (if isPlainObject body
                             then (obj_set rest ''body'' (Str (JSON_stringify body)),
                                   heap_set st1 a ''content-type'' ''application/json'')
                             else (obj_set rest ''body'' body, st1))
                          else (rest, st1));
                       searched =
                         (if truthy params then
                            (case stringifyParams params [] of
                               Inl e \<Rightarrow> Inl e
                             | Inr paramsString \<Rightarrow>
                                 Inr (if paramsString \<noteq> []
                                      then set_search url (search url @ ''&'' @ paramsString)
                                      else url))
                          else Inr url)
                   in case searched of
                        Inl e \<Rightarrow> Inl e
                      | Inr url' \<Rightarrow>
                          Inr ((url', obj_set options ''headers'' (HeadersRef a)), st2))))"

text \<open>
  \<^verbatim>\<open>
  function request(input, init) {
    const [url, options] = transformOptions(input, init)
    return fetch(url, options)
  }
  \<close>
  \<open>Fetch url options\<close> stands for the one invocation \<open>fetch(url, options)\<close> of the
  fetch primitive; an error is thrown before the primitive is reached.
\<close>

datatype fetch_call = Fetch URL props

definition request ::
  "string option \<Rightarrow> input \<Rightarrow> props \<Rightarrow> heap \<Rightarrow> error + (fetch_call \<times> heap)" where
  "request location input init st =
     (case transformOptions location input init st of
        Inl e \<Rightarrow> Inl e
      | Inr ((url, options), st') \<Rightarrow> Inr (Fetch url options, st'))"

section \<open>createFetchInstance\<close>

text \<open>
  \<^verbatim>\<open>
  export function createFetchInstance(defaultInit = {}) {
    function extendedFetchInstance(input, init) {
      return request(input, mergeDeep({ ...defaultInit }, { ...init }))
    }
    extendedFetchInstance.get = function (input, init) {
      return request(input, mergeDeep({ ...defaultInit }, { ...init, method: 'GET' }))
    }
    ... post, put, patch and delete likewise, with 'POST', 'PUT', 'PATCH', 'DELETE' ...
    return extendedFetchInstance
  }
  export const fetcher = createFetchInstance()
  \<close>
  \<open>defaultInit\<close> and \<open>init\<close> are the values passed: an options object or \<open>undefined\<close>.
\<close>

definition extendedFetchInstance ::
  "string option \<Rightarrow> jsval \<Rightarrow> input \<Rightarrow> jsval \<Rightarrow> heap \<Rightarrow> error + (fetch_call \<times> heap)" where
  "extendedFetchInstance location defaultInit input init =
     request location input (mergeDeep (spread defaultInit) (Obj (spread init)))"

definition extendedFetchInstance_get ::
  "string option \<Rightarrow> jsval \<Rightarrow> input \<Rightarrow> jsval \<Rightarrow> heap \<Rightarrow> error + (fetch_call \<times> heap)" where
  "extendedFetchInstance_get location defaultInit input init =
     request location input
       (mergeDeep (spread defaultInit) (Obj (obj_set (spread init) ''method'' (Str ''GET''))))"

definition extendedFetchInstance_post ::
  "string option \<Rightarrow> jsval \<Rightarrow> input \<Rightarrow> jsval \<Rightarrow> heap \<Rightarrow> error + (fetch_call \<times> heap)" where
  "extendedFetchInstance_post location defaultInit input init =
     request location input
       (mergeDeep (spread defaultInit) (Obj (obj_set (spread init) ''method'' (Str ''POST''))))"

definition extendedFetchInstance_put ::
  "string option \<Rightarrow> jsval \<Rightarrow> input \<Rightarrow> jsval \<Rightarrow> heap \<Rightarrow> error + (fetch_call \<times> heap)" where
  "extendedFetchInstance_put location defaultInit input init =
     request location input
       (mergeDeep (spread defaultInit) (Obj (obj_set (spread init) ''method'' (Str ''PUT''))))"

definition extendedFetchInstance_patch ::
  "string option \<Rightarrow> jsval \<Rightarrow> input \<Rightarrow> jsval \<Rightarrow> heap \<Rightarrow> error + (fetch_call \<times> heap)" where
  "extendedFetchInstance_patch location defaultInit input init =
     request location input
       (mergeDeep (spread defaultInit) (Obj (obj_set (spread init) ''method'' (Str ''PATCH''))))"

definition extendedFetchInstance_delete ::
  "string option \<Rightarrow> jsval \<Rightarrow> input \<Rightarrow> jsval \<Rightarrow> heap \<Rightarrow> error + (fetch_call \<times> heap)" where
  "extendedFetchInstance_delete location defaultInit input init =
     request location input
       (mergeDeep (spread defaultInit) (Obj (obj_set (spread init) ''method'' (Str ''DELETE''))))"

text \<open>
  The instance: the default invocation and the five verb methods, closed over
  \<open>defaultInit\<close>.  \<open>fetcher\<close> is the prebuilt instance, created with no argument.
\<close>

record Fetcher =
  default_call :: "input \<Rightarrow> jsval \<Rightarrow> heap \<Rightarrow> error + (fetch_call \<times> heap)"
  get_method :: "input \<Rightarrow> jsval \<Rightarrow> heap \<Rightarrow> error + (fetch_call \<times> heap)"
  post_method :: "input \<Rightarrow> jsval \<Rightarrow> heap \<Rightarrow> error + (fetch_call \<times> heap)"
  put_method :: "input \<Rightarrow> jsval \<Rightarrow> heap \<Rightarrow> error + (fetch_call \<times> heap)"
  patch_method :: "input \<Rightarrow> jsval \<Rightarrow> heap \<Rightarrow> error + (fetch_call \<times> heap)"
  delete_method :: "input \<Rightarrow> jsval \<Rightarrow> heap \<Rightarrow> error + (fetch_call \<times> heap)"

definition createFetchInstance :: "string option \<Rightarrow> jsval \<Rightarrow> Fetcher" where
  "createFetchInstance location defaultInit =
     \<lparr>default_call = extendedFetchInstance location defaultInit,
      get_method = extendedFetchInstance_get location defaultInit,
      post_method = extendedFetchInstance_post location defaultInit,
      put_method = extendedFetchInstance_put location defaultInit,
      patch_method = extendedFetchInstance_patch location defaultInit,
      delete_method = extendedFetchInstance_delete location defaultInit\<rparr>"

definition fetcher :: "string option \<Rightarrow> Fetcher" where
  "fetcher location = createFetchInstance location Undefined"

section \<open>Notions used in the statements\<close>


text \<open>The five verb methods of an instance, by verb.\<close>

datatype verb = GET | POST | PUT | PATCH | DELETE

fun verb_name :: "verb \<Rightarrow> string" where
  "verb_name GET = ''GET''"
| "verb_name POST = ''POST''"
| "verb_name PUT = ''PUT''"
| "verb_name PATCH = ''PATCH''"
| "verb_name DELETE = ''DELETE''"

fun verb_method ::
  "verb \<Rightarrow> Fetcher \<Rightarrow> input \<Rightarrow> jsval \<Rightarrow> heap \<Rightarrow> error + (fetch_call \<times> heap)" where
  "verb_method GET f = get_method f"
| "verb_method POST f = post_method f"
| "verb_method PUT f = put_method f"
| "verb_method PATCH f = patch_method f"
| "verb_method DELETE f = delete_method f"









section \<open>Termination\<close>

text \<open>
  Both recursions descend into the values of the properties of their argument, which are
  smaller than the argument.
\<close>

lemma size_list_zip_snd:
  "size_list (\<lambda>e. size (snd e)) (zip ks xs) \<le> size_list size (xs :: jsval list)"
proof (induction xs arbitrary: ks)
  case Nil
  then show ?case by simp
next
  case (Cons x xs)
  then show ?case by (cases ks) (auto intro: le_SucI)
qed

lemma size_list_snd_props:
  "size_list (\<lambda>e. size (snd e)) kvs \<le> size_list (size_prod (\<lambda>_. 0) size) (kvs :: props)"
  by (induction kvs) auto

lemma size_own_props: "size_list (\<lambda>e. size (snd e)) (own_props v) \<le> size v"
proof (cases v)
  case (Arr xs)
  then show ?thesis using size_list_zip_snd [of "map digits [0..<length xs]" xs] by simp
next
  case (Obj kvs)
  then show ?thesis using size_list_snd_props [of kvs] by simp
qed simp_all

termination mergeDeep
proof (relation "measure (\<lambda>x. case x of Inl (t, s) \<Rightarrow> 2 * size s + 1
                                   | Inr (t, es) \<Rightarrow> 2 * size_list (\<lambda>e. size (snd e)) es)",
       goal_cases)
  case 1
  then show ?case by simp
next
  case (2 target source)
  then show ?case using size_own_props [of source] by simp
next
  case (3 target key sourceValue rest)
  then show ?case by simp
next
  case (4 target key sourceValue rest)
  then show ?case by simp
next
  case 5
  then show ?case by simp
qed

termination stringifyParams
proof (relation "measure (\<lambda>x. case x of Inl (v, pre) \<Rightarrow> 2 * size v + 1
                                   | Inr (sh, es, pre) \<Rightarrow> 2 * size_list (\<lambda>e. size (snd e)) es)",
       goal_cases)
  case 1
  then show ?case by simp
next
  case (2 params prefix)
  then show ?case using size_own_props [of params] by simp
next
  case 3
  then show ?case by simp
next
  case 4
  then show ?case by simp
next
  case 5
  then show ?case by simp
qed


section \<open>Reading and writing properties\<close>

lemma map_of_replace:
  "k \<in> fst ` set ps \<Longrightarrow> map_of (map (\<lambda>e. if fst e = k then (k, v) else e) ps) k = Some v"
  by (induction ps) auto

lemma map_of_replace_other:
  "k' \<noteq> k \<Longrightarrow> map_of (map (\<lambda>e. if fst e = k then (k, v) else e) ps) k' = map_of ps k'"
  by (induction ps) auto

lemma map_of_ins_index: "map_of (ins_index k v ps) k = Some v"
  by (induction ps) auto

lemma map_of_ins_index_other: "k' \<noteq> k \<Longrightarrow> map_of (ins_index k v ps) k' = map_of ps k'"
  by (induction ps) auto

lemma set_ins_index: "set (ins_index k v ps) = insert (k, v) (set ps)"
  by (induction ps) (auto split: if_splits)

lemma keys_replace: "fst ` set (map (\<lambda>e. if fst e = k then (k, v) else e) ps) = fst ` set ps"
  by (induction ps) auto

lemma map_of_snoc_new: "k \<notin> fst ` set ps \<Longrightarrow> map_of (ps @ [(k, v)]) k = Some v"
  by (induction ps) auto

lemma map_of_snoc_other: "k' \<noteq> k \<Longrightarrow> map_of (ps @ [(k, v)]) k' = map_of ps k'"
  by (induction ps) auto

lemma get_prop_obj_set_same: "get_prop (obj_set ps k v) k = v"
proof -
  have "map_of (obj_set ps k v) k = Some v"
    unfolding obj_set_def
    by (simp add: map_of_replace map_of_ins_index map_of_snoc_new del: map_of_append)
  then show ?thesis by (simp add: get_prop_def)
qed

lemma get_prop_obj_set_other: "k' \<noteq> k \<Longrightarrow> get_prop (obj_set ps k v) k' = get_prop ps k'"
  unfolding obj_set_def get_prop_def
  by (simp add: map_of_replace_other map_of_ins_index_other map_of_snoc_other
           del: map_of_append)

lemma keys_obj_set: "fst ` set (obj_set ps k v) = insert k (fst ` set ps)"
proof (cases "k \<in> fst ` set ps")
  case True
  then show ?thesis
    unfolding obj_set_def by (simp only: keys_replace if_True insert_absorb)
next
  case False
  then show ?thesis
    unfolding obj_set_def by (simp add: set_ins_index)
qed

lemma set_replace:
  "(k, v') \<in> set (map (\<lambda>e. if fst e = k then (k, v) else e) ps) \<Longrightarrow> v' = v"
  by (induction ps) (auto split: if_splits)

lemma obj_set_value: "(k, v') \<in> set (obj_set ps k v) \<Longrightarrow> v' = v"
  unfolding obj_set_def
  by (auto simp: set_ins_index rev_image_eqI dest: set_replace split: if_splits)

lemma forEach_frame:
  "k \<notin> fst ` set rest \<Longrightarrow> get_prop (mergeDeep_forEach target rest) k = get_prop target k"
proof (induction rest arbitrary: target)
  case Nil
  then show ?case by simp
next
  case (Cons e rest)
  obtain key sourceValue where e: "e = (key, sourceValue)" by (cases e)
  from Cons.prems e have ne: "k \<noteq> key" and notin: "k \<notin> fst ` set rest" by auto
  show ?case
    unfolding e using Cons.IH [OF notin] ne
    by (simp add: Let_def get_prop_obj_set_other)
qed



subsection \<open>Copying a record in enumeration order\<close>







section \<open>The deep merge\<close>




section \<open>The parameter serialiser\<close>





lemma loop_all_undefined:
  "list_all (\<lambda>e. snd e = Undefined) kvs \<Longrightarrow> stringifyParams_loop False kvs prefix = Inr []"
  by (induction kvs) (auto simp del: stringifyParams.simps(1))

lemma stringifyParams_all_undefined:
  "list_all (\<lambda>e. snd e = Undefined) kvs \<Longrightarrow> ''hasOwnProperty'' \<notin> fst ` set kvs
   \<Longrightarrow> stringifyParams (Obj kvs) prefix = Inr []"
  by (simp add: loop_all_undefined)

subsection \<open>Joining fragments\<close>





subsection \<open>The serialiser against the specification\<close>












subsection \<open>Nesting\<close>



subsection \<open>Undefined and null values\<close>




subsection \<open>Bracket notation\<close>



section \<open>URL resolution and the options transformer\<close>

lemma get_prop_filter:
  "k \<notin> S \<Longrightarrow> get_prop (filter (\<lambda>e. fst e \<notin> S) ps) k = get_prop ps k"
  unfolding get_prop_def by (induction ps) auto

lemma keys_filter: "fst ` set (filter (\<lambda>e. fst e \<notin> S) ps) = fst ` set ps - S"
  by (induction ps) auto

lemmas transformOptions_Inr_defs = transformOptions_def Let_def

lemma transformOptions_Inr:
  assumes "transformOptions location input init st = Inr ((url, options), st')"
  obtains url0 a st1 paramsString where
    "convertInputToURL location input init = Inr url0"
    "normilizedHeaders (get_prop init ''headers'') st = Inr (a, st1)"
    "options = obj_set
       (if truthy (get_prop init ''body'')
        then obj_set (filter (\<lambda>e. fst e \<notin> set [''body'', ''headers'', ''params'', ''baseURL'']) init)
               ''body''
               (if isPlainObject (get_prop init ''body'')
                then Str (JSON_stringify (get_prop init ''body''))
                else get_prop init ''body'')
        else filter (\<lambda>e. fst e \<notin> set [''body'', ''headers'', ''params'', ''baseURL'']) init)
       ''headers'' (HeadersRef a)"
    "st' = (if truthy (get_prop init ''body'') \<and> isPlainObject (get_prop init ''body'')
            then heap_set st1 a ''content-type'' ''application/json'' else st1)"
    "(if truthy (get_prop init ''params'')
      then stringifyParams (get_prop init ''params'') [] else Inr []) = Inr paramsString"
    "url = (if paramsString \<noteq> []
            then set_search url0 (search url0 @ ''&'' @ paramsString)
            else url0)"
proof -
  from assms obtain url0 where conv: "convertInputToURL location input init = Inr url0"
    by (auto simp: transformOptions_def Let_def split: sum.splits)
  from assms conv obtain a st1 where
    norm: "normilizedHeaders (get_prop init ''headers'') st = Inr (a, st1)"
    by (auto simp: transformOptions_def Let_def split: sum.splits)
  from assms conv norm obtain paramsString where
    ps: "(if truthy (get_prop init ''params'')
          then stringifyParams (get_prop init ''params'') [] else Inr []) = Inr paramsString"
    by (cases "stringifyParams (get_prop init ''params'') []")
       (auto simp: transformOptions_Inr_defs split: if_splits)
  show thesis
  proof (rule that [OF conv norm _ _ ps])
    show "options = obj_set
       (if truthy (get_prop init ''body'')
        then obj_set (filter (\<lambda>e. fst e \<notin> set [''body'', ''headers'', ''params'', ''baseURL'']) init)
               ''body''
               (if isPlainObject (get_prop init ''body'')
                then Str (JSON_stringify (get_prop init ''body''))
                else get_prop init ''body'')
        else filter (\<lambda>e. fst e \<notin> set [''body'', ''headers'', ''params'', ''baseURL'']) init)
       ''headers'' (HeadersRef a)"
      using assms conv norm ps
      by (auto simp: transformOptions_Inr_defs simp del: stringifyParams.simps JSON_stringify.simps
            split: if_splits sum.splits)
    show "st' = (if truthy (get_prop init ''body'') \<and> isPlainObject (get_prop init ''body'')
            then heap_set st1 a ''content-type'' ''application/json'' else st1)"
      using assms conv norm ps
      by (auto simp: transformOptions_Inr_defs simp del: stringifyParams.simps JSON_stringify.simps
            split: if_splits sum.splits)
    show "url = (if paramsString \<noteq> []
            then set_search url0 (search url0 @ ''&'' @ paramsString)
            else url0)"
      using assms conv norm ps
      by (auto simp: transformOptions_Inr_defs simp del: stringifyParams.simps JSON_stringify.simps
            split: if_splits sum.splits)
  qed
qed

text \<open>
  C4: every invocation reaches the fetch primitive through \<open>request\<close>, with the merged
  options.  For a relative string target (one that \<open>isAbsoluteURL\<close> rejects) and no
  ambient origin, \<open>request\<close> throws the resolution error and does not reach the fetch
  primitive, both when no base URL is set (the option is absent or falsy) and when the
  base URL is itself relative.
\<close>

theorem resolution_error_before_fetch:
  assumes rel: "\<not> isAbsoluteURL target"
  shows "(\<not> truthy (get_prop init ''baseURL'') \<longrightarrow>
            request None (InString target) init st
              = Inl (Error ''Failed to build URL: base url is not set and browser location is unavailable''))
       \<and> (truthy (get_prop init ''baseURL'')
            \<and> \<not> isAbsoluteURL (to_string (get_prop init ''baseURL'')) \<longrightarrow>
            request None (InString target) init st
              = Inl (Error (''Failed to build URL: base url is relative (''
                            @ to_string (get_prop init ''baseURL'')
                            @ '') and browser location is unavailable'')))"
  using rel by (simp add: request_def transformOptions_def convertInputToURL_def Let_def)

theorem resolution_error_before_fetch_witness:
  "\<not> isAbsoluteURL ''/path''
   \<and> \<not> truthy (get_prop [] ''baseURL'')
   \<and> request None (InString ''/path'') [] []
       = Inl (Error ''Failed to build URL: base url is not set and browser location is unavailable'')
   \<and> truthy (get_prop [(''baseURL'', Str ''/api'')] ''baseURL'')
   \<and> \<not> isAbsoluteURL (to_string (get_prop [(''baseURL'', Str ''/api'')] ''baseURL''))
   \<and> request None (InString ''/path'') [(''baseURL'', Str ''/api'')] []
       = Inl (Error ''Failed to build URL: base url is relative (/api) and browser location is unavailable'')"
proof -
  have rel: "\<not> isAbsoluteURL ''/path''"
    by code_simp
  have unset: "\<not> truthy (get_prop [] ''baseURL'')"
    by (simp add: get_prop_def)
  have val: "get_prop [(''baseURL'', Str ''/api'')] ''baseURL'' = Str ''/api''"
    by (simp add: get_prop_def)
  have relbase: "\<not> isAbsoluteURL ''/api''"
    by code_simp
  show ?thesis
    using resolution_error_before_fetch [OF rel, where init = "[]" and st = "[]"]
      resolution_error_before_fetch [OF rel, where init = "[(''baseURL'', Str ''/api'')]" and st = "[]"]
      rel unset relbase
    by (simp add: val)
qed

text \<open>
  C9: when the \<open>params\<close> option serialises to the empty string (an empty record, a
  record whose values are all \<open>undefined\<close>), the URL that \<open>transformOptions\<close> returns
  is the resolved URL as \<open>convertInputToURL\<close> produced it: nothing is appended to its
  query.
\<close>

theorem params_serialised_empty_leave_url:
  assumes ok: "transformOptions location input init st = Inr ((url, options), st')"
    and empty: "stringifyParams (get_prop init ''params'') [] = Inr []"
  shows "convertInputToURL location input init = Inr url"
  using ok empty
  by (elim transformOptions_Inr) (auto simp del: stringifyParams.simps split: if_splits)

theorem params_serialised_empty_leave_url_witness:
  "transformOptions None (InString ''https://api.com/data?a=1'')
       [(''params'', Obj [(''a'', Undefined), (''b'', Undefined)])] []
     = Inr ((\<lparr>url_scheme = ''https'', url_hier = ''//api.com/data'',
              url_query = Some ''a=1'', url_fragment = None\<rparr>,
             [(''headers'', HeadersRef 0)]), [[]])
   \<and> stringifyParams (get_prop [(''params'', Obj [(''a'', Undefined), (''b'', Undefined)])] ''params'') [] = Inr []
   \<and> convertInputToURL None (InString ''https://api.com/data?a=1'')
         [(''params'', Obj [(''a'', Undefined), (''b'', Undefined)])]
       = Inr \<lparr>url_scheme = ''https'', url_hier = ''//api.com/data'',
              url_query = Some ''a=1'', url_fragment = None\<rparr>
   \<and> transformOptions None (InString ''https://api.com/data'') [(''params'', Obj [])] []
     = Inr ((\<lparr>url_scheme = ''https'', url_hier = ''//api.com/data'',
              url_query = None, url_fragment = None\<rparr>,
             [(''headers'', HeadersRef 0)]), [[]])
   \<and> stringifyParams (get_prop [(''params'', Obj [])] ''params'') [] = Inr []
   \<and> convertInputToURL None (InString ''https://api.com/data'') [(''params'', Obj [])]
       = Inr \<lparr>url_scheme = ''https'', url_hier = ''//api.com/data'',
              url_query = None, url_fragment = None\<rparr>"
proof -
  have ok1: "transformOptions None (InString ''https://api.com/data?a=1'')
       [(''params'', Obj [(''a'', Undefined), (''b'', Undefined)])] []
     = Inr ((\<lparr>url_scheme = ''https'', url_hier = ''//api.com/data'',
              url_query = Some ''a=1'', url_fragment = None\<rparr>,
             [(''headers'', HeadersRef 0)]), [[]])"
    by code_simp
  have val1: "get_prop [(''params'', Obj [(''a'', Undefined), (''b'', Undefined)])] ''params''
                = Obj [(''a'', Undefined), (''b'', Undefined)]"
    by (simp add: get_prop_def)
  have empty1: "stringifyParams (get_prop [(''params'', Obj [(''a'', Undefined), (''b'', Undefined)])] ''params'') [] = Inr []"
    unfolding val1 by (rule stringifyParams_all_undefined) simp_all
  have ok2: "transformOptions None (InString ''https://api.com/data'') [(''params'', Obj [])] []
     = Inr ((\<lparr>url_scheme = ''https'', url_hier = ''//api.com/data'',
              url_query = None, url_fragment = None\<rparr>,
             [(''headers'', HeadersRef 0)]), [[]])"
    by code_simp
  have empty2: "stringifyParams (get_prop [(''params'', Obj [])] ''params'') [] = Inr []"
    by code_simp
  show ?thesis
    using params_serialised_empty_leave_url [OF ok1 empty1]
      params_serialised_empty_leave_url [OF ok2 empty2] ok1 empty1 ok2 empty2
    by blast
qed

text \<open>
  C10: when the \<open>body\<close> option is falsy (the empty string, \<open>null\<close>, \<open>0\<close>, or absent),
  the transport options have no \<open>body\<close> property, and their headers are the
  normalised headers of the call, on which nothing has been set: the heap is the one
  that normalisation left.
\<close>

theorem falsy_body_is_dropped:
  assumes ok: "transformOptions location input init st = Inr ((url, options), st')"
    and falsy: "\<not> truthy (get_prop init ''body'')"
  shows "''body'' \<notin> fst ` set options
         \<and> (\<exists>a. normilizedHeaders (get_prop init ''headers'') st = Inr (a, st')
                \<and> get_prop options ''headers'' = HeadersRef a)"
  using ok falsy
  by (elim transformOptions_Inr)
     (auto simp: keys_obj_set get_prop_obj_set_same simp del: stringifyParams.simps)

theorem falsy_body_is_dropped_witness:
  "transformOptions None (InString ''https://api.com/data'')
       [(''body'', Str []), (''method'', Str ''POST'')] []
     = Inr ((\<lparr>url_scheme = ''https'', url_hier = ''//api.com/data'',
              url_query = None, url_fragment = None\<rparr>,
             [(''method'', Str ''POST''), (''headers'', HeadersRef 0)]), [[]])
   \<and> \<not> truthy (get_prop [(''body'', Str []), (''method'', Str ''POST'')] ''body'')
   \<and> transformOptions None (InString ''https://api.com/data'')
       [(''body'', Null), (''method'', Str ''POST'')] []
     = Inr ((\<lparr>url_scheme = ''https'', url_hier = ''//api.com/data'',
              url_query = None, url_fragment = None\<rparr>,
             [(''method'', Str ''POST''), (''headers'', HeadersRef 0)]), [[]])
   \<and> \<not> truthy (get_prop [(''body'', Null), (''method'', Str ''POST'')] ''body'')
   \<and> transformOptions None (InString ''https://api.com/data'')
       [(''body'', Num ''0''), (''method'', Str ''POST'')] []
     = Inr ((\<lparr>url_scheme = ''https'', url_hier = ''//api.com/data'',
              url_query = None, url_fragment = None\<rparr>,
             [(''method'', Str ''POST''), (''headers'', HeadersRef 0)]), [[]])
   \<and> \<not> truthy (get_prop [(''body'', Num ''0''), (''method'', Str ''POST'')] ''body'')
   \<and> ''body'' \<notin> fst ` set [(''method'', Str ''POST''), (''headers'', HeadersRef 0)]
   \<and> (\<exists>a. normilizedHeaders (get_prop [(''body'', Str []), (''method'', Str ''POST'')] ''headers'') []
               = Inr (a, [[]])
            \<and> get_prop [(''method'', Str ''POST''), (''headers'', HeadersRef 0)] ''headers''
               = HeadersRef a)
   \<and> (\<exists>a. normilizedHeaders (get_prop [(''body'', Null), (''method'', Str ''POST'')] ''headers'') []
               = Inr (a, [[]])
            \<and> get_prop [(''method'', Str ''POST''), (''headers'', HeadersRef 0)] ''headers''
               = HeadersRef a)
   \<and> (\<exists>a. normilizedHeaders (get_prop [(''body'', Num ''0''), (''method'', Str ''POST'')] ''headers'') []
               = Inr (a, [[]])
            \<and> get_prop [(''method'', Str ''POST''), (''headers'', HeadersRef 0)] ''headers''
               = HeadersRef a)"
proof -
  have ok1: "transformOptions None (InString ''https://api.com/data'')
       [(''body'', Str []), (''method'', Str ''POST'')] []
     = Inr ((\<lparr>url_scheme = ''https'', url_hier = ''//api.com/data'',
              url_query = None, url_fragment = None\<rparr>,
             [(''method'', Str ''POST''), (''headers'', HeadersRef 0)]), [[]])"
    by code_simp
  have falsy1: "\<not> truthy (get_prop [(''body'', Str []), (''method'', Str ''POST'')] ''body'')"
    by code_simp
  have ok2: "transformOptions None (InString ''https://api.com/data'')
       [(''body'', Null), (''method'', Str ''POST'')] []
     = Inr ((\<lparr>url_scheme = ''https'', url_hier = ''//api.com/data'',
              url_query = None, url_fragment = None\<rparr>,
             [(''method'', Str ''POST''), (''headers'', HeadersRef 0)]), [[]])"
    by code_simp
  have falsy2: "\<not> truthy (get_prop [(''body'', Null), (''method'', Str ''POST'')] ''body'')"
    by code_simp
  have ok3: "transformOptions None (InString ''https://api.com/data'')
       [(''body'', Num ''0''), (''method'', Str ''POST'')] []
     = Inr ((\<lparr>url_scheme = ''https'', url_hier = ''//api.com/data'',
              url_query = None, url_fragment = None\<rparr>,
             [(''method'', Str ''POST''), (''headers'', HeadersRef 0)]), [[]])"
    by code_simp
  have falsy3: "\<not> truthy (get_prop [(''body'', Num ''0''), (''method'', Str ''POST'')] ''body'')"
    by code_simp
  show ?thesis
    using falsy_body_is_dropped [OF ok1 falsy1] falsy_body_is_dropped [OF ok2 falsy2]
      falsy_body_is_dropped [OF ok3 falsy3] ok1 falsy1 ok2 falsy2 ok3 falsy3
    by blast
qed









section \<open>Instances\<close>

text \<open>
  C2: \<open>get("https://api.com/data", {params: {q: "x"}})\<close> invokes the fetch primitive
  with method GET, no body and the exact URL \<open>https://api.com/data?q=x\<close>.  On the
  prebuilt instance the method is GET and there is no body, but the URL is
  \<open>https://api.com/data?&q=x\<close>: \<open>transformOptions\<close> writes \<open>&\<close> in front of the
  parameters also when the URL has no query yet.
\<close>

theorem get_with_params_url:
  "get_method (fetcher location) (InString ''https://api.com/data'')
       (Obj [(''params'', Obj [(''q'', Str ''x'')])]) st
     = Inr (Fetch \<lparr>url_scheme = ''https'', url_hier = ''//api.com/data'',
                    url_query = Some ''&q=x'', url_fragment = None\<rparr>
                  [(''method'', Str ''GET''), (''headers'', HeadersRef (length st))],
            st @ [[]])
   \<and> href \<lparr>url_scheme = ''https'', url_hier = ''//api.com/data'',
            url_query = Some ''&q=x'', url_fragment = None\<rparr> = ''https://api.com/data?&q=x''
   \<and> ''https://api.com/data?&q=x'' \<noteq> ''https://api.com/data?q=x''"
proof -
  have abs: "isAbsoluteURL ''https://api.com/data''"
    by code_simp
  have url: "new_URL ''https://api.com/data'' None
               = Inr \<lparr>url_scheme = ''https'', url_hier = ''//api.com/data'',
                      url_query = None, url_fragment = None\<rparr>"
    by code_simp
  have ps: "stringifyParams (Obj [(''q'', Str ''x'')]) [] = Inr ''q=x''"
    by code_simp
  have merged: "mergeDeep (spread Undefined)
                  (Obj (obj_set (spread (Obj [(''params'', Obj [(''q'', Str ''x'')])])) ''method'' (Str ''GET'')))
                = [(''params'', Obj [(''q'', Str ''x'')]), (''method'', Str ''GET'')]"
    by code_simp
  have enc: "query_encode True ''&q=x'' = ''&q=x''"
    by code_simp
  have sp: "is_special ''https''" by code_simp
  have ai: "\<not> is_array_index ''headers''" by code_simp
  have conv: "convertInputToURL location (InString ''https://api.com/data'')
                 [(''params'', Obj [(''q'', Str ''x'')]), (''method'', Str ''GET'')]
              = Inr \<lparr>url_scheme = ''https'', url_hier = ''//api.com/data'',
                      url_query = None, url_fragment = None\<rparr>"
    by (simp add: convertInputToURL_def abs url)
  have "get_method (fetcher location) (InString ''https://api.com/data'')
          (Obj [(''params'', Obj [(''q'', Str ''x'')])]) st
        = Inr (Fetch \<lparr>url_scheme = ''https'', url_hier = ''//api.com/data'',
                       url_query = Some ''&q=x'', url_fragment = None\<rparr>
                     [(''method'', Str ''GET''), (''headers'', HeadersRef (length st))],
               st @ [[]])"
    unfolding fetcher_def createFetchInstance_def extendedFetchInstance_get_def
    apply (simp only: Fetcher.simps merged)
    apply (simp add: request_def transformOptions_def conv normilizedHeaders_def new_Headers_def
        get_prop_def ps search_def set_search_def enc sp obj_set_def ai
        del: stringifyParams.simps)
    done
  moreover have "href \<lparr>url_scheme = ''https'', url_hier = ''//api.com/data'',
            url_query = Some ''&q=x'', url_fragment = None\<rparr> = ''https://api.com/data?&q=x''"
    by (simp add: href_def)
  ultimately show ?thesis by simp
qed

text \<open>
  C5: no invocation of an instance mutates the defaults it captured.  An instance created
  with \<open>{headers: h}\<close>, \<open>h\<close> an empty \<open>Headers\<close> collection (address 0 of the heap),
  and called as \<open>post("https://api.com/x", {body: {a: 1}})\<close>: the merged options hold
  \<open>h\<close> itself, \<open>transformOptions\<close> keeps it as \<open>normilizedHeaders\<close> and sets
  \<open>content-type\<close> on it, so that the collection of the defaults is no longer empty
  after the call.
\<close>

theorem post_mutates_default_headers:
  "post_method (createFetchInstance location (Obj [(''headers'', HeadersRef 0)]))
       (InString ''https://api.com/x'') (Obj [(''body'', Obj [(''a'', Num ''1'')])]) [[]]
     = Inr (Fetch \<lparr>url_scheme = ''https'', url_hier = ''//api.com/x'',
                    url_query = None, url_fragment = None\<rparr>
                  [(''method'', Str ''POST''),
                   (''body'', Str [CHR ''{'', CHR 0x22, CHR ''a'', CHR 0x22, CHR '':'', CHR ''1'', CHR ''}'']),
                   (''headers'', HeadersRef 0)],
            [[(''content-type'', ''application/json'')]])
   \<and> headers_at [[]] 0 = []
   \<and> headers_at [[(''content-type'', ''application/json'')]] 0
       = [(''content-type'', ''application/json'')]"
proof -
  have abs: "isAbsoluteURL ''https://api.com/x''"
    by code_simp
  have url: "new_URL ''https://api.com/x'' None
               = Inr \<lparr>url_scheme = ''https'', url_hier = ''//api.com/x'',
                      url_query = None, url_fragment = None\<rparr>"
    by code_simp
  have merged: "mergeDeep (spread (Obj [(''headers'', HeadersRef 0)]))
                  (Obj (obj_set (spread (Obj [(''body'', Obj [(''a'', Num ''1'')])])) ''method'' (Str ''POST'')))
                = [(''headers'', HeadersRef 0), (''body'', Obj [(''a'', Num ''1'')]), (''method'', Str ''POST'')]"
    by code_simp
  have conv: "convertInputToURL location (InString ''https://api.com/x'')
                 [(''headers'', HeadersRef 0), (''body'', Obj [(''a'', Num ''1'')]), (''method'', Str ''POST'')]
              = Inr \<lparr>url_scheme = ''https'', url_hier = ''//api.com/x'',
                      url_query = None, url_fragment = None\<rparr>"
    by (simp add: convertInputToURL_def abs url)
  have js: "JSON_stringify (Obj [(''a'', Num ''1'')])
              = [CHR ''{'', CHR 0x22, CHR ''a'', CHR 0x22, CHR '':'', CHR ''1'', CHR ''}'']"
    by code_simp
  have hs: "heap_set [[]] 0 ''content-type'' ''application/json''
              = [[(''content-type'', ''application/json'')]]"
    by code_simp
  have os: "obj_set (obj_set [(''method'', Str ''POST'')] ''body'' (Str (JSON_stringify (Obj [(''a'', Num ''1'')]))))
                ''headers'' (HeadersRef 0)
            = [(''method'', Str ''POST''), (''body'', Str (JSON_stringify (Obj [(''a'', Num ''1'')]))), (''headers'', HeadersRef 0)]"
    by code_simp
  have "post_method (createFetchInstance location (Obj [(''headers'', HeadersRef 0)]))
       (InString ''https://api.com/x'') (Obj [(''body'', Obj [(''a'', Num ''1'')])]) [[]]
     = Inr (Fetch \<lparr>url_scheme = ''https'', url_hier = ''//api.com/x'',
                    url_query = None, url_fragment = None\<rparr>
                  [(''method'', Str ''POST''),
                   (''body'', Str [CHR ''{'', CHR 0x22, CHR ''a'', CHR 0x22, CHR '':'', CHR ''1'', CHR ''}'']),
                   (''headers'', HeadersRef 0)],
            [[(''content-type'', ''application/json'')]])"
    unfolding createFetchInstance_def extendedFetchInstance_post_def
    apply (simp only: Fetcher.simps merged)
    apply (simp add: request_def transformOptions_def conv normilizedHeaders_def
        get_prop_def hs os del: JSON_stringify.simps)
    apply (simp only: js)
    done
  then show ?thesis by (simp add: headers_at_def)
qed

lemma isArray_isAnyObject: "isArray v \<Longrightarrow> isAnyObject v"
  by (cases v) auto

lemma forEach_sets_scalar:
  assumes "k \<in> fst ` set es" and "\<forall>e\<in>set es. fst e = k \<longrightarrow> snd e = sv"
    and "\<not> isAnyObject sv" and "k \<noteq> ''__proto__''"
  shows "get_prop (mergeDeep_forEach t es) k = sv"
  using assms
proof (induction es arbitrary: t)
  case Nil
  then show ?case by simp
next
  case (Cons e es)
  obtain key sourceValue where e: "e = (key, sourceValue)" by (cases e)
  from Cons.prems(3) have na: "\<not> isArray sv"
    by (auto dest: isArray_isAnyObject)
  show ?case
  proof (cases "k \<in> fst ` set es")
    case True
    with Cons.prems show ?thesis
      unfolding e by (simp add: Let_def Cons.IH del: mergeDeep.simps)
  next
    case False
    with Cons.prems e have same: "key = k" "sourceValue = sv" by auto
    show ?thesis
      unfolding e same using Cons.prems(3) Cons.prems(4) na
      by (simp add: Let_def forEach_frame [OF False] get_prop_obj_set_same)
  qed
qed

lemma merged_method:
  "get_prop (mergeDeep t (Obj (obj_set ps ''method'' (Str n)))) ''method'' = Str n"
proof -
  have "get_prop (mergeDeep_forEach t (obj_set ps ''method'' (Str n))) ''method'' = Str n"
    by (rule forEach_sets_scalar) (auto simp: keys_obj_set dest: obj_set_value)
  then show ?thesis by simp
qed

lemma request_keeps_method:
  assumes "request location input m st = Inr (Fetch url options, st')"
  shows "get_prop options ''method'' = get_prop m ''method''"
proof -
  from assms have "transformOptions location input m st = Inr ((url, options), st')"
    by (auto simp: request_def split: sum.splits)
  then obtain a where opts: "options = obj_set
       (if truthy (get_prop m ''body'')
        then obj_set (filter (\<lambda>e. fst e \<notin> set [''body'', ''headers'', ''params'', ''baseURL'']) m)
               ''body''
               (if isPlainObject (get_prop m ''body'')
                then Str (JSON_stringify (get_prop m ''body''))
                else get_prop m ''body'')
        else filter (\<lambda>e. fst e \<notin> set [''body'', ''headers'', ''params'', ''baseURL'']) m)
       ''headers'' (HeadersRef a)"
    by (rule transformOptions_Inr)
  have rest: "get_prop (filter (\<lambda>e. fst e \<notin> set [''body'', ''headers'', ''params'', ''baseURL'']) m)
                ''method'' = get_prop m ''method''"
    by (rule get_prop_filter) simp
  show ?thesis
    using rest by (simp add: opts get_prop_obj_set_other del: JSON_stringify.simps)
qed

text \<open>
  C8: each verb method of an instance is the default invocation on the per-call options
  with their \<open>method\<close> set to the verb's name, and whenever it reaches the fetch
  primitive the transport options carry that name as \<open>method\<close>, whatever \<open>method\<close>
  the defaults of the instance or the per-call options had.
\<close>

theorem verb_method_forces_method:
  "verb_method v (createFetchInstance location defaultInit) input init
     = default_call (createFetchInstance location defaultInit) input
         (Obj (obj_set (spread init) ''method'' (Str (verb_name v))))
   \<and> (verb_method v (createFetchInstance location defaultInit) input init st
         = Inr (Fetch url options, st') \<longrightarrow>
       get_prop options ''method'' = Str (verb_name v))"
proof -
  have eq: "verb_method v (createFetchInstance location defaultInit) input init
     = request location input
         (mergeDeep (spread defaultInit) (Obj (obj_set (spread init) ''method'' (Str (verb_name v)))))"
    by (cases v)
       (simp_all add: createFetchInstance_def extendedFetchInstance_get_def
          extendedFetchInstance_post_def extendedFetchInstance_put_def
          extendedFetchInstance_patch_def extendedFetchInstance_delete_def del: mergeDeep.simps)
  have dflt: "default_call (createFetchInstance location defaultInit) input
         (Obj (obj_set (spread init) ''method'' (Str (verb_name v))))
     = request location input
         (mergeDeep (spread defaultInit) (Obj (obj_set (spread init) ''method'' (Str (verb_name v)))))"
    by (simp add: createFetchInstance_def extendedFetchInstance_def spread_def del: mergeDeep.simps)
  have meth: "get_prop options ''method'' = Str (verb_name v)"
    if "verb_method v (createFetchInstance location defaultInit) input init st
         = Inr (Fetch url options, st')"
    using that request_keeps_method [of location input _ st url options st']
    by (simp add: eq merged_method del: mergeDeep.simps)
  from eq dflt meth show ?thesis by simp
qed

theorem verb_method_forces_method_witness:
  "verb_method GET (createFetchInstance None (Obj [(''method'', Str ''PUT'')]))
       (InString ''https://api.com/x'') (Obj [(''method'', Str ''POST'')]) []
     = Inr (Fetch \<lparr>url_scheme = ''https'', url_hier = ''//api.com/x'',
                    url_query = None, url_fragment = None\<rparr>
                  [(''method'', Str ''GET''), (''headers'', HeadersRef 0)], [[]])
   \<and> get_prop [(''method'', Str ''GET''), (''headers'', HeadersRef 0)] ''method''
       = Str (verb_name GET)
   \<and> verb_method GET (createFetchInstance None (Obj [(''method'', Str ''PUT'')]))
         (InString ''https://api.com/x'') (Obj [(''method'', Str ''POST'')])
       = default_call (createFetchInstance None (Obj [(''method'', Str ''PUT'')]))
           (InString ''https://api.com/x'')
           (Obj (obj_set (spread (Obj [(''method'', Str ''POST'')])) ''method'' (Str (verb_name GET))))
   \<and> verb_method DELETE (createFetchInstance None (Obj [(''method'', Str ''PUT'')]))
       (InString ''https://api.com/x'') Undefined []
     = Inr (Fetch \<lparr>url_scheme = ''https'', url_hier = ''//api.com/x'',
                    url_query = None, url_fragment = None\<rparr>
                  [(''method'', Str ''DELETE''), (''headers'', HeadersRef 0)], [[]])
   \<and> get_prop [(''method'', Str ''DELETE''), (''headers'', HeadersRef 0)] ''method''
       = Str (verb_name DELETE)"
proof -
  have get: "verb_method GET (createFetchInstance None (Obj [(''method'', Str ''PUT'')]))
       (InString ''https://api.com/x'') (Obj [(''method'', Str ''POST'')]) []
     = Inr (Fetch \<lparr>url_scheme = ''https'', url_hier = ''//api.com/x'',
                    url_query = None, url_fragment = None\<rparr>
                  [(''method'', Str ''GET''), (''headers'', HeadersRef 0)], [[]])"
    by code_simp
  have del: "verb_method DELETE (createFetchInstance None (Obj [(''method'', Str ''PUT'')]))
       (InString ''https://api.com/x'') Undefined []
     = Inr (Fetch \<lparr>url_scheme = ''https'', url_hier = ''//api.com/x'',
                    url_query = None, url_fragment = None\<rparr>
                  [(''method'', Str ''DELETE''), (''headers'', HeadersRef 0)], [[]])"
    by code_simp
  show ?thesis
    using verb_method_forces_method [of GET None "Obj [(''method'', Str ''PUT'')]"
          "InString ''https://api.com/x''" "Obj [(''method'', Str ''POST'')]" "[]"
          "\<lparr>url_scheme = ''https'', url_hier = ''//api.com/x'', url_query = None, url_fragment = None\<rparr>"
          "[(''method'', Str ''GET''), (''headers'', HeadersRef 0)]" "[[]]"]
      verb_method_forces_method [of DELETE None "Obj [(''method'', Str ''PUT'')]"
          "InString ''https://api.com/x''" Undefined "[]"
          "\<lparr>url_scheme = ''https'', url_hier = ''//api.com/x'', url_query = None, url_fragment = None\<rparr>"
          "[(''method'', Str ''DELETE''), (''headers'', HeadersRef 0)]" "[[]]"]
      get del
    by blast
qed

end
